theory Spec2Isabelle
  imports Complex_Main "HOL-Library.Product_Lexorder"
begin

section \<open>Global attribution mapping: the driver \<open>gam/gam.py\<close>\<close>

text \<open>
  The theory embeds class \<open>GAM\<close> of \<open>src/gam/gam.py\<close>. An instance is a record, a method
  is a function from the instance to the instance it leaves behind, and an exception is
  a value that still carries the instance as it was when the exception was raised
  (Python does not roll back the assignments made before a raise).

  Numbers: a Python \<open>int\<close> is an \<open>int\<close>. A \<open>float\<close> that the driver reads from the CSV
  file is a \<open>real\<close>: rounding and overflow of IEEE doubles are not modelled. The one
  place where floating point differs from real arithmetic in kind and not in precision
  is the division in \<open>normalize\<close>, which numpy carries out also for a zero divisor; its
  results are therefore values of \<open>npfloat\<close>, with \<open>nan\<close> and the two infinities.
\<close>

subsection \<open>Floating-point quotients\<close>

datatype npfloat = Num real | PInf | NInf | NaN

text \<open>
  numpy's true division \<open>a / b\<close> of two finite doubles, for a divisor that is either
  non-zero or \<open>+0.0\<close> (a sum of absolute values is never \<open>-0.0\<close>): no exception is
  raised for a zero divisor, the quotient is \<open>nan\<close> for \<open>0 / 0\<close> and an infinity with
  the sign of \<open>a\<close> otherwise.
\<close>

definition np_div :: "real \<Rightarrow> real \<Rightarrow> npfloat" where
  "np_div a b =
     (if b \<noteq> 0 then Num (a / b)
      else if a = 0 then NaN
      else if 0 < a then PInf else NInf)"




fun np_nonneg :: "npfloat \<Rightarrow> bool" where
  "np_nonneg (Num x) = (0 \<le> x)"
| "np_nonneg PInf = True"
| "np_nonneg NInf = False"
| "np_nonneg NaN = False"

fun is_nan :: "npfloat \<Rightarrow> bool" where
  "is_nan NaN = True"
| "is_nan _ = False"

subsection \<open>\<open>GAM.normalize\<close>\<close>

text \<open>
  \<^verbatim>\<open>total = np.abs(attributions).sum(axis=1, keepdims=True)\<close>
  \<^verbatim>\<open>return np.abs(attributions) / total\<close>

  \<open>total\<close> holds one sum per row; the division broadcasts it along the row.
\<close>

definition row_total :: "real list \<Rightarrow> real" where
  "row_total row = sum_list (map abs row)"

definition normalize_row :: "real list \<Rightarrow> npfloat list" where
  "normalize_row row = (let total = row_total row in map (\<lambda>a. np_div \<bar>a\<bar> total) row)"

definition GAM_normalize :: "real list list \<Rightarrow> npfloat list list" where
  "GAM_normalize attributions = map normalize_row attributions"

subsection \<open>\<open>GAM.get_subpopulation_sizes\<close>\<close>

text \<open>
  \<open>collections.Counter\<close> is a dictionary that keeps its keys in the order of their first
  occurrence: an association list. \<open>Counter(iterable)\<close> adds one to the count of each
  element in turn, a missing key counting as zero.
\<close>

fun counter_incr :: "int \<Rightarrow> (int \<times> nat) list \<Rightarrow> (int \<times> nat) list" where
  "counter_incr x [] = [(x, 1)]"
| "counter_incr x ((y, c) # m) = (if x = y then (y, c + 1) # m else (y, c) # counter_incr x m)"

definition Counter :: "int list \<Rightarrow> (int \<times> nat) list" where
  "Counter xs = foldl (\<lambda>m x. counter_incr x m) [] xs"

text \<open>\<open>index_to_size[i]\<close>: a \<open>Counter\<close> answers zero for a key it does not hold.\<close>

definition counter_get :: "(int \<times> nat) list \<Rightarrow> int \<Rightarrow> nat" where
  "counter_get m i = (case map_of m i of None \<Rightarrow> 0 | Some c \<Rightarrow> c)"

text \<open>
  \<^verbatim>\<open>index_to_size = Counter(subpopulations)\<close>
  \<^verbatim>\<open>sizes = [index_to_size[i] for i in sorted(index_to_size)]\<close>

  Iterating a dictionary yields its keys, so \<open>sorted\<close> sorts the distinct cluster ids.
\<close>

definition get_subpopulation_sizes :: "int list \<Rightarrow> nat list" where
  "get_subpopulation_sizes subpopulations =
     (let index_to_size = Counter subpopulations
      in map (\<lambda>i. counter_get index_to_size i) (sort (map fst index_to_size)))"

subsection \<open>Exceptions, and the code this file imports\<close>

text \<open>
  The exceptions that the statements of \<open>gam.py\<close> raise themselves: reading a local
  variable that was never assigned, an index out of range, subscripting or iterating
  \<open>None\<close>. \<open>LibraryError\<close> stands for whatever an imported function raises.
\<close>

datatype error = UnboundLocalError | IndexError | TypeError | LibraryError string

text \<open>
  The two distance functions come from modules outside this file
  (\<open>gam.spearman_distance\<close>, \<open>gam.kendall_tau_distance\<close>). The driver never calls them:
  it hands them to the clusterer and to \<open>pairwise_distances\<close>. They are modelled as the
  names of the two function objects.
\<close>

datatype dist_func = spearman_squared_distance | mergeSortDistance

text \<open>
  The imported functions the driver calls are parameters of the model, each returning
  its result or the exception it raises:
  \<^item> \<open>genfromtxt path\<close> is \<open>np.genfromtxt(path, dtype=float, delimiter=",", skip_header=1)\<close>;
  \<^item> \<open>csv_header path\<close> is \<open>next(csv.reader(open(path)))\<close>;
  \<^item> \<open>KMedoids_fit k dist_func max_iter tol data\<close> is
    \<open>KMedoids(k, dist_func=..., max_iter=..., tol=...)\<close> followed by \<open>fit(data, verbose=False)\<close>,
    returning the fitted object's \<open>members\<close> and \<open>centers\<close>;
  \<^item> \<open>pairwise_distances data metric\<close> and \<open>silhouette_score D labels\<close> (with
    \<open>metric="precomputed"\<close>) are scikit-learn's.
  Each is a function of its arguments: the file and the clusterer's random seed are
  taken as fixed while a method runs.
\<close>

record env =
  genfromtxt :: "string \<Rightarrow> error + real list list"
  csv_header :: "string \<Rightarrow> error + string list"
  KMedoids_fit :: "int \<Rightarrow> dist_func \<Rightarrow> int \<Rightarrow> real \<Rightarrow> npfloat list list option
                    \<Rightarrow> error + (int list \<times> int list)"
  pairwise_distances :: "npfloat list list option \<Rightarrow> dist_func \<Rightarrow> error + real list list"
  silhouette_score :: "real list list \<Rightarrow> int list option \<Rightarrow> error + real"

subsection \<open>The instance\<close>

type_synonym explanation = "(string \<times> npfloat) list"

text \<open>An attribute holding \<open>None\<close> is \<open>None\<close>; \<open>silh_scores\<close> does not exist before
  \<open>get_optimal_clustering\<close> assigns it, which is \<open>None\<close> as well.\<close>

record GAM =
  attributions_path :: string
  distance :: string
  k :: int
  attributions :: "real list list option"
  normalized_attributions :: "npfloat list list option"
  feature_labels :: "string list option"
  subpopulations :: "int list option"
  subpopulation_sizes :: "nat list option"
  explanations :: "explanation list option"
  silh_scores :: "(real \<times> int) list option"

text \<open>\<open>GAM.__init__(attributions_path, distance, k)\<close>\<close>

definition GAM_init :: "string \<Rightarrow> string \<Rightarrow> int \<Rightarrow> GAM" where
  "GAM_init path dname kk =
     \<lparr> attributions_path = path, distance = dname, k = kk,
       attributions = None, normalized_attributions = None, feature_labels = None,
       subpopulations = None, subpopulation_sizes = None, explanations = None,
       silh_scores = None \<rparr>"

text \<open>
  What running a method gives: \<open>Done v self\<close> when it returns \<open>v\<close>, \<open>Fail e self\<close> when
  it raises \<open>e\<close>; \<open>self\<close> is the instance as the method leaves it.
\<close>

datatype 'a run = Done 'a GAM | Fail error GAM

subsection \<open>\<open>GAM._read_local\<close>\<close>

definition read_local :: "env \<Rightarrow> GAM \<Rightarrow> unit run" where
  "read_local E self =
     (case genfromtxt E (attributions_path self) of
        Inl e \<Rightarrow> Fail e self
      | Inr a \<Rightarrow>
          (let self1 = self\<lparr>attributions := Some a\<rparr>
           in case csv_header E (attributions_path self1) of
                Inl e \<Rightarrow> Fail e self1
              | Inr labels \<Rightarrow> Done () (self1\<lparr>feature_labels := Some labels\<rparr>)))"

subsection \<open>\<open>GAM._get_explanations\<close>\<close>

text \<open>\<open>a[i]\<close> on a list or on the rows of an array: a negative index counts from the
  end, an index outside \<open>-n .. n-1\<close> raises \<open>IndexError\<close>.\<close>

definition py_index :: "'a list \<Rightarrow> int \<Rightarrow> error + 'a" where
  "py_index a i =
     (if 0 \<le> i \<and> i < int (length a) then Inr (a ! nat i)
      else if - int (length a) \<le> i \<and> i < 0 then Inr (a ! nat (int (length a) + i))
      else Inl IndexError)"

text \<open>
  \<^verbatim>\<open>for center_index in centers:\<close>
  \<^verbatim>\<open>    explanation_weights = self.normalized_attributions[center_index]\<close>
  \<^verbatim>\<open>    explanations.append(list(zip(self.feature_labels, explanation_weights)))\<close>

  \<open>zip\<close> stops at the shorter of its two arguments, as Python's does.
\<close>

fun explanations_loop :: "GAM \<Rightarrow> int list \<Rightarrow> explanation list \<Rightarrow> error + explanation list" where
  "explanations_loop self [] acc = Inr acc"
| "explanations_loop self (center_index # centers) acc =
     (case normalized_attributions self of
        None \<Rightarrow> Inl TypeError
      | Some na \<Rightarrow>
          (case py_index na center_index of
             Inl e \<Rightarrow> Inl e
           | Inr explanation_weights \<Rightarrow>
               (case feature_labels self of
                  None \<Rightarrow> Inl TypeError
                | Some labels \<Rightarrow>
                    explanations_loop self centers (acc @ [zip labels explanation_weights]))))"

definition get_explanations :: "GAM \<Rightarrow> int list \<Rightarrow> error + explanation list" where
  "get_explanations self centers = explanations_loop self centers []"

subsection \<open>\<open>GAM._cluster\<close> and \<open>GAM.generate\<close>\<close>

text \<open>
  \<open>_cluster(self, distance_function=spearman_squared_distance, max_iter=1000, tol=0.0001)\<close>:
  the three defaults are arguments here, and \<open>generate\<close>, which calls \<open>self._cluster()\<close>
  with no argument, passes them.
\<close>

definition cluster :: "env \<Rightarrow> dist_func \<Rightarrow> int \<Rightarrow> real \<Rightarrow> GAM \<Rightarrow> unit run" where
  "cluster E distance_function max_iter tol self =
     (case KMedoids_fit E (k self) distance_function max_iter tol (normalized_attributions self) of
        Inl e \<Rightarrow> Fail e self
      | Inr (members, centers) \<Rightarrow>
          (let self1 = self\<lparr>subpopulations := Some members\<rparr>;
               self2 = self1\<lparr>subpopulation_sizes := Some (get_subpopulation_sizes members)\<rparr>
           in case get_explanations self2 centers of
                Inl e \<Rightarrow> Fail e self2
              | Inr ex \<Rightarrow> Done () (self2\<lparr>explanations := Some ex\<rparr>)))"

definition generate :: "env \<Rightarrow> GAM \<Rightarrow> unit run" where
  "generate E self =
     (case read_local E self of
        Fail e self1 \<Rightarrow> Fail e self1
      | Done _ self1 \<Rightarrow>
          (case attributions self1 of
             None \<Rightarrow> Fail TypeError self1
           | Some a \<Rightarrow>
               cluster E spearman_squared_distance 1000 (1 / 10000)
                 (self1\<lparr>normalized_attributions := Some (GAM_normalize a)\<rparr>)))"

subsection \<open>\<open>GAM.get_optimal_clustering\<close>\<close>

text \<open>
  \<^verbatim>\<open>if self.distance == "spearman": my_func = spearman_squared_distance\<close>
  \<^verbatim>\<open>elif self.distance == "kendall_tau": my_func = mergeSortDistance\<close>

  There is no \<open>else\<close>: for any other name the local \<open>my_func\<close> keeps what it held,
  which is nothing (\<open>None\<close>, unbound) when no earlier iteration assigned it.
\<close>

definition select_metric :: "string \<Rightarrow> dist_func option \<Rightarrow> dist_func option" where
  "select_metric name my_func =
     (if name = ''spearman'' then Some spearman_squared_distance
      else if name = ''kendall_tau'' then Some mergeSortDistance
      else my_func)"

text \<open>
  The body of \<open>for n_cluster in range(2, max_clusters + 1)\<close>. The locals \<open>silh_list\<close> and
  \<open>my_func\<close> live across iterations; reading \<open>my_func\<close> unbound raises
  \<open>UnboundLocalError\<close>. Logging (\<open>verbose\<close>) changes nothing and is left out.
\<close>

fun scan :: "env \<Rightarrow> int list \<Rightarrow> (real \<times> int) list \<Rightarrow> dist_func option \<Rightarrow> GAM
               \<Rightarrow> (real \<times> int) list run" where
  "scan E [] silh_list my_func self = Done silh_list self"
| "scan E (n_cluster # rest) silh_list my_func self =
     (case generate E (self\<lparr>k := n_cluster\<rparr>) of
        Fail e self1 \<Rightarrow> Fail e self1
      | Done _ self1 \<Rightarrow>
          (let my_func1 = select_metric (distance self1) my_func
           in case my_func1 of
                None \<Rightarrow> Fail UnboundLocalError self1
              | Some f \<Rightarrow>
                  (case pairwise_distances E (normalized_attributions self1) f of
                     Inl e \<Rightarrow> Fail e self1
                   | Inr D \<Rightarrow>
                       (case silhouette_score E D (subpopulations self1) of
                          Inl e \<Rightarrow> Fail e self1
                        | Inr silhouette_avg \<Rightarrow>
                            scan E rest (silh_list @ [(silhouette_avg, n_cluster)])
                              my_func1 self1))))"

text \<open>
  \<^verbatim>\<open>max_clusters = max(2, max_clusters)\<close>, the loop, then
  \<^verbatim>\<open>silh_list.sort(); self.silh_scores = silh_list\<close>
  \<^verbatim>\<open>nCluster = self.silh_scores[-1][1]; self.k = nCluster; self.generate()\<close>

  Python sorts the tuples \<open>(score, k)\<close> lexicographically, which is the order of pairs
  from \<open>Product_Lexorder\<close>.
\<close>

definition get_optimal_clustering :: "env \<Rightarrow> int \<Rightarrow> GAM \<Rightarrow> unit run" where
  "get_optimal_clustering E max_clusters self =
     (let max_clusters1 = max 2 max_clusters
      in case scan E [2..max_clusters1] [] None self of
           Fail e self1 \<Rightarrow> Fail e self1
         | Done silh_list self1 \<Rightarrow>
             (let sorted_list = sort silh_list;
                  self2 = self1\<lparr>silh_scores := Some sorted_list\<rparr>
              in case py_index sorted_list (- 1) of
                   Inl e \<Rightarrow> Fail e self2
                 | Inr best \<Rightarrow> generate E (self2\<lparr>k := snd best\<rparr>)))"

subsection \<open>Notions used to state the properties\<close>

text \<open>The instance a method leaves behind, whether it returned or raised.\<close>

fun instance_of :: "'a run \<Rightarrow> GAM" where
  "instance_of (Done _ self) = self"
| "instance_of (Fail _ self) = self"

text \<open>Whether a method returned (rather than raised).\<close>

fun returned :: "'a run \<Rightarrow> bool" where
  "returned (Done _ _) = True"
| "returned (Fail _ _) = False"

text \<open>
  The silhouette score of a candidate cluster count \<open>n\<close>: what one pass of the loop body
  of \<open>get_optimal_clustering\<close> computes for \<open>n\<close> on the instance, \<open>None\<close> when the pass
  raises.
\<close>

definition candidate_score :: "env \<Rightarrow> GAM \<Rightarrow> int \<Rightarrow> real option" where
  "candidate_score E self n =
     (case generate E (self\<lparr>k := n\<rparr>) of
        Fail _ _ \<Rightarrow> None
      | Done _ self1 \<Rightarrow>
          (case select_metric (distance self1) None of
             None \<Rightarrow> None
           | Some f \<Rightarrow>
               (case pairwise_distances E (normalized_attributions self1) f of
                  Inl _ \<Rightarrow> None
                | Inr D \<Rightarrow>
                    (case silhouette_score E D (subpopulations self1) of
                       Inl _ \<Rightarrow> None
                     | Inr v \<Rightarrow> Some v))))"

text \<open>The six attributes that a run of \<open>generate\<close> assigns, copied from one instance
  into another.\<close>

definition copy_results :: "GAM \<Rightarrow> GAM \<Rightarrow> GAM" where
  "copy_results src dst =
     dst\<lparr> attributions := attributions src,
          normalized_attributions := normalized_attributions src,
          feature_labels := feature_labels src,
          subpopulations := subpopulations src,
          subpopulation_sizes := subpopulation_sizes src,
          explanations := explanations src \<rparr>"

subsection \<open>Concrete instances and libraries for evaluation\<close>

text \<open>An instance after normalization of three rows over two features.\<close>

definition demo :: GAM where
  "demo = (GAM_init ''local_attributions.csv'' ''spearman'' 2)
     \<lparr> normalized_attributions :=
         Some [[Num (1 / 5), Num (4 / 5)], [Num (1 / 10), Num (9 / 10)],
               [Num (4 / 5), Num (1 / 5)]],
       feature_labels := Some [''height'', ''weight''] \<rparr>"

text \<open>
  A library stand-in over the four rows \<open>(2,8), (1,9), (8,2), (9,1)\<close> with the header
  \<open>height, weight\<close>. The clusterer gives the two groups for \<open>k = 2\<close> and the membership
  \<open>members3\<close> for \<open>k = 3\<close>, and fails for any other \<open>k\<close>. The pairwise distances
  are 0 inside a group and 2 across the groups, so the silhouette score is \<open>1\<close> for the
  two-group membership; it is \<open>0.5\<close> for any other (as for \<open>[0, 0, 1, 2]\<close>, where the
  two singletons score 0). With \<open>members3 = [0, 0, 1, 1]\<close> the third cluster is empty and
  both candidates score the same.
\<close>

definition demo_env :: "int list \<Rightarrow> env" where
  "demo_env members3 =
     \<lparr> genfromtxt = (\<lambda>path. Inr [[2, 8], [1, 9], [8, 2], [9, 1]]),
       csv_header = (\<lambda>path. Inr [''height'', ''weight'']),
       KMedoids_fit = (\<lambda>n f max_iter tol data.
          if n = 2 then Inr ([0, 0, 1, 1], [0, 2])
          else if n = 3 then Inr (members3, [0, 2, 3])
          else Inl (LibraryError ''k'')),
       pairwise_distances = (\<lambda>data f.
          Inr [[0, 0, 2, 2], [0, 0, 2, 2], [2, 2, 0, 0], [2, 2, 0, 0]]),
       silhouette_score = (\<lambda>D labels.
          if labels = Some [0, 0, 1, 1] then Inr 1 else Inr (1 / 2)) \<rparr>"

text \<open>
  A clusterer that tells which distance function it was given: the membership it
  returns is \<open>[0, 0, 1, 1]\<close> for the Spearman function and \<open>[0, 1, 0, 1]\<close> for the
  Kendall-tau function.
\<close>

definition probe_env :: env where
  "probe_env =
     \<lparr> genfromtxt = (\<lambda>path. Inr [[2, 8], [1, 9], [8, 2], [9, 1]]),
       csv_header = (\<lambda>path. Inr [''height'', ''weight'']),
       KMedoids_fit = (\<lambda>n f max_iter tol data.
          case f of
            spearman_squared_distance \<Rightarrow> Inr ([0, 0, 1, 1], [0, 2])
          | mergeSortDistance \<Rightarrow> Inr ([0, 1, 0, 1], [0, 1])),
       pairwise_distances = (\<lambda>data f. Inr []),
       silhouette_score = (\<lambda>D labels. Inr 0) \<rparr>"

section \<open>Verified properties\<close>

subsection \<open>Normalization\<close>



lemma row_total_nonneg: "0 \<le> row_total row"
  unfolding row_total_def by (induction row) simp_all

lemma row_total_zero_iff: "row_total row = 0 \<longleftrightarrow> (\<forall>a \<in> set row. a = 0)"
  unfolding row_total_def
proof (induction row)
  case Nil
  show ?case by simp
next
  case (Cons a row)
  have "0 \<le> sum_list (map abs row)" using row_total_nonneg[of row] by (simp add: row_total_def)
  with Cons show ?case by auto
qed

lemma normalize_row_nonzero:
  "row_total row \<noteq> 0 \<Longrightarrow> normalize_row row = map (\<lambda>a. Num (\<bar>a\<bar> / row_total row)) row"
  by (simp add: normalize_row_def np_div_def)

lemma normalize_row_zero:
  "row_total row = 0 \<Longrightarrow> normalize_row row = replicate (length row) NaN"
  by (simp add: normalize_row_def np_div_def row_total_zero_iff map_replicate_const[symmetric] cong: map_cong)





lemma row_total_abs: "row_total (map abs row) = row_total row"
  by (simp add: row_total_def comp_def)

lemma normalize_row_abs: "normalize_row (map abs row) = normalize_row row"
  by (simp add: normalize_row_def row_total_abs comp_def)

text \<open>
  Claim C9 says that every entry of a normalized matrix is non-negative. The entries of
  an all-zero row are \<open>nan\<close>, for which \<open>0 <= x\<close> is false.
\<close>

theorem normalize_signs_counterexample:
  "GAM_normalize [[0, 0]] = [[NaN, NaN]] \<and> \<not> np_nonneg NaN"
  by (simp add: GAM_normalize_def normalize_row_def row_total_def np_div_def)

text \<open>
  Claim C9, amended. Normalizing a matrix and normalizing its element-wise absolute value
  give the same matrix; every entry in a row whose absolute values have a non-zero sum
  is non-negative, and every entry in a row where that sum is zero is \<open>nan\<close>.
\<close>

theorem normalize_discards_signs:
  "GAM_normalize M = GAM_normalize (map (map abs) M)
   \<and> (\<forall>i < length M. row_total (M ! i) \<noteq> 0 \<longrightarrow> (\<forall>x \<in> set (GAM_normalize M ! i). np_nonneg x))
   \<and> (\<forall>i < length M. row_total (M ! i) = 0 \<longrightarrow> (\<forall>x \<in> set (GAM_normalize M ! i). is_nan x))"
proof (intro conjI allI impI)
  show "GAM_normalize M = GAM_normalize (map (map abs) M)"
    by (simp add: GAM_normalize_def normalize_row_abs comp_def)
next
  fix i assume "i < length M" and nz: "row_total (M ! i) \<noteq> 0"
  then have "GAM_normalize M ! i = map (\<lambda>a. Num (\<bar>a\<bar> / row_total (M ! i))) (M ! i)"
    by (simp add: GAM_normalize_def normalize_row_nonzero)
  moreover have "0 \<le> row_total (M ! i)" by (rule row_total_nonneg)
  ultimately show "\<forall>x \<in> set (GAM_normalize M ! i). np_nonneg x" by auto
next
  fix i assume "i < length M" and "row_total (M ! i) = 0"
  then show "\<forall>x \<in> set (GAM_normalize M ! i). is_nan x"
    by (simp add: GAM_normalize_def normalize_row_zero)
qed

theorem normalize_discards_signs_witness:
  "GAM_normalize [[- 2, 8], [0, 0]] = GAM_normalize [[2, 8], [0, 0]]
   \<and> GAM_normalize [[- 2, 8], [0, 0]] = [[Num (2 / 10), Num (8 / 10)], [NaN, NaN]]
   \<and> row_total [- 2, 8] \<noteq> 0 \<and> np_nonneg (Num (2 / 10)) \<and> np_nonneg (Num (8 / 10))
   \<and> row_total [0, 0] = 0 \<and> is_nan NaN"
  using normalize_discards_signs [of "[[- 2, 8], [0, 0]]"]
  by (simp add: row_total_def GAM_normalize_def normalize_row_def np_div_def)

text \<open>
  Claim C10. \<open>normalize\<close> has no guard and no error: it returns a matrix of the shape of
  its argument whatever the rows are. A row whose absolute values sum to zero comes out
  as the quotient \<open>0 / 0\<close> in every position, which is \<open>nan\<close>; when every row has a
  non-zero sum, every entry of the result is a number.
\<close>

theorem normalize_unguarded_division:
  "length (GAM_normalize M) = length M
   \<and> (\<forall>i < length M. length (GAM_normalize M ! i) = length (M ! i))
   \<and> (\<forall>i < length M. row_total (M ! i) = 0 \<longrightarrow>
        GAM_normalize M ! i = replicate (length (M ! i)) (np_div 0 0))
   \<and> np_div 0 0 = NaN
   \<and> ((\<forall>row \<in> set M. row_total row \<noteq> 0) \<longrightarrow>
        (\<forall>r \<in> set (GAM_normalize M). \<forall>x \<in> set r. \<exists>v. x = Num v))"
proof (intro conjI allI impI)
  show "length (GAM_normalize M) = length M" by (simp add: GAM_normalize_def)
  show "np_div 0 0 = NaN" by (simp add: np_div_def)
next
  fix i assume "i < length M"
  then show "length (GAM_normalize M ! i) = length (M ! i)"
    by (simp add: GAM_normalize_def normalize_row_def)
next
  fix i assume "i < length M" and "row_total (M ! i) = 0"
  then show "GAM_normalize M ! i = replicate (length (M ! i)) (np_div 0 0)"
    by (simp add: GAM_normalize_def normalize_row_zero np_div_def)
next
  assume "\<forall>row \<in> set M. row_total row \<noteq> 0"
  then show "\<forall>r \<in> set (GAM_normalize M). \<forall>x \<in> set r. \<exists>v. x = Num v"
    by (auto simp: GAM_normalize_def normalize_row_nonzero)
qed

theorem normalize_unguarded_division_witness:
  "row_total [0, 0] = 0 \<and> row_total [1, 3] \<noteq> 0
   \<and> GAM_normalize [[0, 0], [1, 3]] ! 0 = [NaN, NaN]
   \<and> GAM_normalize [[1, 3]] = [[Num (1 / 4), Num (3 / 4)]]"
proof -
  have z: "row_total ([[0, 0], [1, 3]] ! 0) = 0" by (simp add: row_total_def)
  from normalize_unguarded_division [of "[[0, 0], [1, 3]]"] z
  have "GAM_normalize [[0, 0], [1, 3]] ! 0 = replicate (length ([[0, 0], [1, 3 :: real]] ! 0)) NaN"
    by simp
  then show ?thesis
    by (simp add: row_total_def GAM_normalize_def normalize_row_def np_div_def)
qed

subsection \<open>Subpopulation sizes\<close>

lemma counter_incr_keys:
  "map fst (counter_incr x m) = (if x \<in> fst ` set m then map fst m else map fst m @ [x])"
  by (induction m) force+

lemma counter_incr_keyset: "fst ` set (counter_incr x m) = insert x (fst ` set m)"
proof -
  have "set (map fst (counter_incr x m)) = insert x (set (map fst m))"
    by (simp only: counter_incr_keys) auto
  then show ?thesis by simp
qed

lemma counter_incr_distinct:
  "distinct (map fst m) \<Longrightarrow> distinct (map fst (counter_incr x m))"
  by (simp add: counter_incr_keys)

lemma counter_get_incr:
  "counter_get (counter_incr x m) i = (if i = x then counter_get m i + 1 else counter_get m i)"
  by (induction m) (auto simp: counter_get_def)

lemma counter_fold_keys:
  "fst ` set (foldl (\<lambda>m x. counter_incr x m) m xs) = fst ` set m \<union> set xs"
  by (induction xs arbitrary: m) (simp_all add: counter_incr_keyset)

lemma counter_fold_distinct:
  "distinct (map fst m) \<Longrightarrow> distinct (map fst (foldl (\<lambda>m x. counter_incr x m) m xs))"
  by (induction xs arbitrary: m) (simp_all add: counter_incr_distinct)

lemma counter_fold_get:
  "counter_get (foldl (\<lambda>m x. counter_incr x m) m xs) i = counter_get m i + count_list xs i"
  by (induction xs arbitrary: m) (simp_all add: counter_get_incr)

lemma Counter_keys: "set (map fst (Counter xs)) = set xs"
  using counter_fold_keys [of "[]" xs] by (simp add: Counter_def)

lemma Counter_distinct: "distinct (map fst (Counter xs))"
  using counter_fold_distinct [of "[]" xs] by (simp add: Counter_def)

lemma Counter_get: "counter_get (Counter xs) i = count_list xs i"
  using counter_fold_get [of "[]" xs i] by (simp add: Counter_def counter_get_def)

lemma sorted_keys: "sort (map fst (Counter xs)) = sorted_list_of_set (set xs)"
proof -
  have "sorted_list_of_set (set (map fst (Counter xs))) = sort (remdups (map fst (Counter xs)))"
    by (rule sorted_list_of_set_sort_remdups)
  also have "remdups (map fst (Counter xs)) = map fst (Counter xs)"
    using Counter_distinct [of xs] by (rule distinct_remdups_id)
  finally show ?thesis by (simp only: Counter_keys)
qed

lemma sizes_eq:
  "get_subpopulation_sizes xs = map (count_list xs) (sorted_list_of_set (set xs))"
  by (simp add: get_subpopulation_sizes_def Let_def sorted_keys Counter_get)

text \<open>
  Claim C7. For every membership array, the sizes returned by \<open>get_subpopulation_sizes\<close>
  sum to the length of the array, there are as many sizes as distinct cluster ids in the
  array, and the sizes are the member counts of the ids taken in ascending order.
\<close>

theorem subpopulation_sizes_sum_and_length:
  "sum_list (get_subpopulation_sizes members) = length members
   \<and> length (get_subpopulation_sizes members) = card (set members)
   \<and> get_subpopulation_sizes members
       = map (count_list members) (sorted_list_of_set (set members))"
proof (intro conjI)
  show eq: "get_subpopulation_sizes members
       = map (count_list members) (sorted_list_of_set (set members))"
    by (rule sizes_eq)
  have "sum_list (map (count_list members) (sorted_list_of_set (set members)))
        = sum (count_list members) (set (sorted_list_of_set (set members)))"
    by (rule sum_list_distinct_conv_sum_set) simp
  also have "\<dots> = length members"
    by (simp add: sum_count_set)
  finally show "sum_list (get_subpopulation_sizes members) = length members"
    by (simp add: eq)
  show "length (get_subpopulation_sizes members) = card (set members)"
    by (simp add: eq)
qed

theorem subpopulation_sizes_witness:
  "get_subpopulation_sizes [0, 1, 0, 0] = [3, 1]
   \<and> get_subpopulation_sizes [2, 0, 2, 5, 0, 2] = [2, 3, 1]
   \<and> sum_list (get_subpopulation_sizes [2, 0, 2, 5, 0, 2]) = length [2, 0, 2, 5, 0, 2 :: int]
   \<and> length (get_subpopulation_sizes [2, 0, 2, 5, 0, 2]) = card (set [2, 0, 2, 5, 0, 2 :: int])"
  using subpopulation_sizes_sum_and_length [of "[2, 0, 2, 5, 0, 2]"]
  by (simp add: get_subpopulation_sizes_def Counter_def counter_get_def)

subsection \<open>Explanations\<close>

lemma py_index_valid:
  "0 \<le> c \<Longrightarrow> c < int (length a) \<Longrightarrow> py_index a c = Inr (a ! nat c)"
  by (simp add: py_index_def)

lemma explanations_loop_valid:
  assumes "normalized_attributions self = Some na" and "feature_labels self = Some labels"
    and "\<forall>c \<in> set centers. 0 \<le> c \<and> c < int (length na)"
  shows "explanations_loop self centers acc
         = Inr (acc @ map (\<lambda>c. zip labels (na ! nat c)) centers)"
  using assms(3)
proof (induction centers arbitrary: acc)
  case Nil
  show ?case by simp
next
  case (Cons c centers)
  then have "py_index na c = Inr (na ! nat c)" by (simp add: py_index_valid)
  with Cons assms(1,2) show ?case by simp
qed

text \<open>
  Claim C8. When the instance holds a normalized matrix and feature labels, every centre
  is a valid row index and every row is as long as the label list, the explanation
  builder returns one explanation per centre, in the order of the centres; the
  \<open>j\<close>-th entry of the \<open>i\<close>-th explanation is the \<open>j\<close>-th label paired with the \<open>j\<close>-th
  weight of the row at the \<open>i\<close>-th centre. The builder returns a value only: it leaves
  the instance, and so the matrix and the labels, as they are.
\<close>

theorem explanations_pair_labels_with_medoid_rows:
  assumes "normalized_attributions self = Some na" and "feature_labels self = Some labels"
    and "\<forall>c \<in> set centers. 0 \<le> c \<and> c < int (length na)"
    and "\<forall>row \<in> set na. length row = length labels"
  shows "\<exists>ex. get_explanations self centers = Inr ex
           \<and> length ex = length centers
           \<and> (\<forall>i < length centers.
                 length (ex ! i) = length labels
                 \<and> (\<forall>j < length labels.
                       ex ! i ! j = (labels ! j, na ! nat (centers ! i) ! j)))"
proof -
  let ?ex = "map (\<lambda>c. zip labels (na ! nat c)) centers"
  have run: "get_explanations self centers = Inr ?ex"
    using explanations_loop_valid [OF assms(1,2,3), of "[]"] by (simp add: get_explanations_def)
  have rows: "length (na ! nat (centers ! i)) = length labels" if "i < length centers" for i
  proof -
    from that have "centers ! i \<in> set centers" by simp
    with assms(3) have "nat (centers ! i) < length na" by auto
    then have "na ! nat (centers ! i) \<in> set na" by simp
    with assms(4) show ?thesis by blast
  qed
  have "\<forall>i < length centers.
          length (?ex ! i) = length labels
          \<and> (\<forall>j < length labels. ?ex ! i ! j = (labels ! j, na ! nat (centers ! i) ! j))"
    using rows by simp
  with run show ?thesis by simp
qed

theorem explanations_witness:
  "get_explanations demo [2, 0]
     = Inr [[(''height'', Num (4/5)), (''weight'', Num (1/5))],
            [(''height'', Num (1/5)), (''weight'', Num (4/5))]]"
proof -
  have "\<exists>ex. get_explanations demo [2, 0] = Inr ex \<and> length ex = length [2, 0 :: int]
           \<and> (\<forall>i < length [2, 0 :: int].
                 length (ex ! i) = length [''height'', ''weight'']
                 \<and> (\<forall>j < length [''height'', ''weight''].
                       ex ! i ! j = ([''height'', ''weight''] ! j,
                          [[Num (1/5), Num (4/5)], [Num (1/10), Num (9/10)], [Num (4/5), Num (1/5)]] ! nat ([2, 0] ! i) ! j)))"
    by (rule explanations_pair_labels_with_medoid_rows) (simp_all add: demo_def GAM_init_def)
  then show ?thesis by (simp add: get_explanations_def demo_def py_index_def)
qed

subsection \<open>One run of \<open>generate\<close>\<close>

lemma explanations_loop_cong:
  "normalized_attributions s = normalized_attributions t \<Longrightarrow>
   feature_labels s = feature_labels t \<Longrightarrow>
   explanations_loop s cs acc = explanations_loop t cs acc"
  by (induction cs arbitrary: acc) (simp_all split: option.splits sum.splits)

lemma get_explanations_cong:
  "normalized_attributions s = normalized_attributions t \<Longrightarrow>
   feature_labels s = feature_labels t \<Longrightarrow>
   get_explanations s cs = get_explanations t cs"
  unfolding get_explanations_def by (rule explanations_loop_cong)

lemma read_local_unfold:
  "read_local E s =
     (case genfromtxt E (attributions_path s) of
        Inl e \<Rightarrow> Fail e s
      | Inr a \<Rightarrow>
          (case csv_header E (attributions_path s) of
             Inl e \<Rightarrow> Fail e (s\<lparr>attributions := Some a\<rparr>)
           | Inr h \<Rightarrow> Done () (s\<lparr>attributions := Some a, feature_labels := Some h\<rparr>)))"
  by (simp add: read_local_def Let_def split: sum.splits)

lemma generate_unfold:
  "generate E s =
     (case genfromtxt E (attributions_path s) of
        Inl e \<Rightarrow> Fail e s
      | Inr a \<Rightarrow>
          (case csv_header E (attributions_path s) of
             Inl e \<Rightarrow> Fail e (s\<lparr>attributions := Some a\<rparr>)
           | Inr h \<Rightarrow>
               cluster E spearman_squared_distance 1000 (1 / 10000)
                 (s\<lparr>attributions := Some a, feature_labels := Some h,
                    normalized_attributions := Some (GAM_normalize a)\<rparr>)))"
  by (simp add: generate_def read_local_unfold split: sum.splits)

lemma cluster_unfold:
  "cluster E f mi tol s =
     (case KMedoids_fit E (k s) f mi tol (normalized_attributions s) of
        Inl e \<Rightarrow> Fail e s
      | Inr mc \<Rightarrow>
          (case get_explanations s (snd mc) of
             Inl e \<Rightarrow> Fail e (s\<lparr>subpopulations := Some (fst mc),
                                 subpopulation_sizes := Some (get_subpopulation_sizes (fst mc))\<rparr>)
           | Inr ex \<Rightarrow> Done () (s\<lparr>subpopulations := Some (fst mc),
                                 subpopulation_sizes := Some (get_subpopulation_sizes (fst mc)),
                                 explanations := Some ex\<rparr>)))"
proof -
  have g: "get_explanations (s\<lparr>subpopulations := x, subpopulation_sizes := y\<rparr>) cs
           = get_explanations s cs" for x y cs
    by (rule get_explanations_cong) simp_all
  show ?thesis
    by (simp add: cluster_def Let_def g split: sum.splits prod.splits)
qed

lemma cluster_Done_transfer:
  assumes "cluster E f mi tol s = Done u s'"
    and "k t = k s" and "normalized_attributions t = normalized_attributions s"
    and "feature_labels t = feature_labels s"
  shows "cluster E f mi tol t
         = Done u (t\<lparr>subpopulations := subpopulations s',
                      subpopulation_sizes := subpopulation_sizes s',
                      explanations := explanations s'\<rparr>)"
proof -
  have g: "get_explanations t cs = get_explanations s cs" for cs
    using assms(3,4) by (rule get_explanations_cong)
  obtain mc where km: "KMedoids_fit E (k s) f mi tol (normalized_attributions s) = Inr mc"
    using assms(1) by (cases "KMedoids_fit E (k s) f mi tol (normalized_attributions s)")
      (simp_all add: cluster_unfold)
  obtain ex where ex: "get_explanations s (snd mc) = Inr ex"
    using assms(1) km by (cases "get_explanations s (snd mc)") (simp_all add: cluster_unfold)
  from assms(1) km ex have s': "s' = s\<lparr>subpopulations := Some (fst mc),
       subpopulation_sizes := Some (get_subpopulation_sizes (fst mc)),
       explanations := Some ex\<rparr>" and "u = ()"
    by (simp_all add: cluster_unfold)
  show ?thesis
    using km ex assms(2,3) by (simp add: cluster_unfold [of E f mi tol t] g s')
qed

lemma generate_Done_transfer:
  assumes "generate E s = Done u s'"
    and "attributions_path t = attributions_path s" and "k t = k s"
  shows "generate E t = Done u (copy_results s' t)"
proof -
  obtain a where a: "genfromtxt E (attributions_path s) = Inr a"
    using assms(1) by (cases "genfromtxt E (attributions_path s)") (simp_all add: generate_unfold)
  obtain h where h: "csv_header E (attributions_path s) = Inr h"
    using assms(1) a by (cases "csv_header E (attributions_path s)") (simp_all add: generate_unfold)
  let ?s2 = "s\<lparr>attributions := Some a, feature_labels := Some h,
                 normalized_attributions := Some (GAM_normalize a)\<rparr>"
  let ?t2 = "t\<lparr>attributions := Some a, feature_labels := Some h,
                 normalized_attributions := Some (GAM_normalize a)\<rparr>"
  have c: "cluster E spearman_squared_distance 1000 (1 / 10000) ?s2 = Done u s'"
    using assms(1) a h by (simp add: generate_unfold)
  have "cluster E spearman_squared_distance 1000 (1 / 10000) ?t2
        = Done u (?t2\<lparr>subpopulations := subpopulations s',
                      subpopulation_sizes := subpopulation_sizes s',
                      explanations := explanations s'\<rparr>)"
    by (rule cluster_Done_transfer [OF c]) (simp_all add: assms(3))
  moreover have "attributions s' = Some a" "feature_labels s' = Some h"
    "normalized_attributions s' = Some (GAM_normalize a)"
    using c by (auto simp: cluster_unfold split: sum.splits)
  ultimately show ?thesis
    using a h assms(2) by (simp add: generate_unfold [of E t] copy_results_def)
qed

lemma generate_Done_fields:
  assumes "generate E s = Done u s'"
  shows "attributions_path s' = attributions_path s" "distance s' = distance s"
    "k s' = k s" "silh_scores s' = silh_scores s"
  using assms
  by (auto simp: generate_unfold cluster_unfold split: sum.splits)

lemma generate_Done_self:
  assumes "generate E s = Done u s'"
  shows "copy_results s' s = s'"
  using assms
  by (auto simp: generate_unfold cluster_unfold copy_results_def split: sum.splits)

lemma generate_distance_update:
  "generate E (s\<lparr>distance := d\<rparr>)
     = (case generate E s of
          Done u s' \<Rightarrow> Done u (s'\<lparr>distance := d\<rparr>)
        | Fail e s' \<Rightarrow> Fail e (s'\<lparr>distance := d\<rparr>))"
proof -
  have g: "get_explanations (t\<lparr>distance := d\<rparr>) cs = get_explanations t cs" for t :: GAM and cs
    by (rule get_explanations_cong) simp_all
  have c: "cluster E f mi tol (t\<lparr>distance := d\<rparr>)
     = (case cluster E f mi tol t of
          Done u s' \<Rightarrow> Done u (s'\<lparr>distance := d\<rparr>)
        | Fail e s' \<Rightarrow> Fail e (s'\<lparr>distance := d\<rparr>))" for f mi tol and t :: GAM
    by (simp add: cluster_unfold g split: sum.splits)
  have u: "t\<lparr>distance := d, attributions := x, feature_labels := y, normalized_attributions := z\<rparr>
         = t\<lparr>attributions := x, feature_labels := y, normalized_attributions := z, distance := d\<rparr>"
    for t :: GAM and x y z by simp
  show ?thesis
    by (simp add: generate_unfold u c split: sum.splits)
qed

subsection \<open>The scan over candidate cluster counts\<close>

lemma select_metric_idem:
  "select_metric d (select_metric d None) = select_metric d None"
  by (simp add: select_metric_def)

lemma generate_not_Done_transfer:
  assumes "generate E s = Fail e s1"
    and "attributions_path t = attributions_path s" and "k t = k s"
  shows "\<exists>e' t1. generate E t = Fail e' t1"
proof (cases "generate E t")
  case (Done u t1)
  from generate_Done_transfer [OF Done, of s] assms(2,3)
  have "generate E s = Done u (copy_results t1 s)" by simp
  with assms(1) show ?thesis by simp
next
  case (Fail e' t1)
  then show ?thesis by blast
qed

lemma candidate_score_cong:
  assumes "attributions_path t = attributions_path s" and "distance t = distance s"
  shows "candidate_score E t n = candidate_score E s n"
proof (cases "generate E (s\<lparr>k := n\<rparr>)")
  case (Done u s1)
  have "generate E (t\<lparr>k := n\<rparr>) = Done u (copy_results s1 (t\<lparr>k := n\<rparr>))"
    by (rule generate_Done_transfer [OF Done]) (simp_all add: assms(1))
  moreover have "distance s1 = distance s"
    using generate_Done_fields(2) [OF Done] by simp
  ultimately show ?thesis
    using Done assms(2)
    by (simp add: candidate_score_def copy_results_def cong: option.case_cong sum.case_cong)
next
  case (Fail e s1)
  have "\<exists>e' t1. generate E (t\<lparr>k := n\<rparr>) = Fail e' t1"
    by (rule generate_not_Done_transfer [OF Fail]) (simp_all add: assms(1))
  with Fail show ?thesis by (auto simp: candidate_score_def)
qed

lemma scan_Cons_Done:
  assumes "scan E (n # rest) acc mf s = Done L s'"
  obtains u s1 f D v where "generate E (s\<lparr>k := n\<rparr>) = Done u s1"
    and "select_metric (distance s1) mf = Some f"
    and "pairwise_distances E (normalized_attributions s1) f = Inr D"
    and "silhouette_score E D (subpopulations s1) = Inr v"
    and "scan E rest (acc @ [(v, n)]) (Some f) s1 = Done L s'"
proof -
  obtain u s1 where g: "generate E (s\<lparr>k := n\<rparr>) = Done u s1"
    using assms by (cases "generate E (s\<lparr>k := n\<rparr>)") simp_all
  obtain f where f: "select_metric (distance s1) mf = Some f"
    using assms g by (cases "select_metric (distance s1) mf") (simp_all add: Let_def)
  obtain D where D: "pairwise_distances E (normalized_attributions s1) f = Inr D"
    using assms g f
    by (cases "pairwise_distances E (normalized_attributions s1) f") (simp_all add: Let_def)
  obtain v where v: "silhouette_score E D (subpopulations s1) = Inr v"
    using assms g f D
    by (cases "silhouette_score E D (subpopulations s1)") (simp_all add: Let_def)
  have "scan E rest (acc @ [(v, n)]) (Some f) s1 = Done L s'"
    using assms g f D v by (simp add: Let_def)
  with g f D v show ?thesis by (rule that)
qed

lemma scan_Done:
  assumes "scan E cs acc mf s = Done L s'"
    and "mf = None \<or> mf = select_metric (distance s) None"
  shows "L = acc @ map (\<lambda>n. (the (candidate_score E s n), n)) cs
         \<and> (\<forall>n \<in> set cs. candidate_score E s n \<noteq> None)
         \<and> attributions_path s' = attributions_path s
         \<and> distance s' = distance s
         \<and> silh_scores s' = silh_scores s"
  using assms
proof (induction cs arbitrary: acc mf s)
  case Nil
  then show ?case by simp
next
  case (Cons n rest)
  from Cons.prems(1) obtain u s1 f D v where
    g: "generate E (s\<lparr>k := n\<rparr>) = Done u s1"
    and f: "select_metric (distance s1) mf = Some f"
    and D: "pairwise_distances E (normalized_attributions s1) f = Inr D"
    and v: "silhouette_score E D (subpopulations s1) = Inr v"
    and rest: "scan E rest (acc @ [(v, n)]) (Some f) s1 = Done L s'"
    by (rule scan_Cons_Done)
  have fields: "attributions_path s1 = attributions_path s" "distance s1 = distance s"
    "silh_scores s1 = silh_scores s"
    using generate_Done_fields [OF g] by simp_all
  have f0: "select_metric (distance s1) None = Some f"
    using f Cons.prems(2) fields(2) by (auto simp: select_metric_idem)
  have sc: "candidate_score E s n = Some v"
    using g f0 D v by (simp add: candidate_score_def)
  have cong: "candidate_score E s1 m = candidate_score E s m" for m
    by (rule candidate_score_cong) (simp_all add: fields)
  have "Some f = None \<or> Some f = select_metric (distance s1) None"
    using f0 by simp
  from Cons.IH [OF rest this] sc fields show ?case
    by (simp add: cong)
qed

lemma candidate_score_SomeE:
  assumes "candidate_score E s n = Some sc"
  obtains u s1 f D where "generate E (s\<lparr>k := n\<rparr>) = Done u s1"
    and "select_metric (distance s1) None = Some f"
    and "pairwise_distances E (normalized_attributions s1) f = Inr D"
    and "silhouette_score E D (subpopulations s1) = Inr sc"
proof -
  obtain u s1 where g: "generate E (s\<lparr>k := n\<rparr>) = Done u s1"
    using assms by (cases "generate E (s\<lparr>k := n\<rparr>)") (simp_all add: candidate_score_def)
  obtain f where f: "select_metric (distance s1) None = Some f"
    using assms g by (cases "select_metric (distance s1) None") (simp_all add: candidate_score_def)
  obtain D where D: "pairwise_distances E (normalized_attributions s1) f = Inr D"
    using assms g f
    by (cases "pairwise_distances E (normalized_attributions s1) f")
      (simp_all add: candidate_score_def)
  have "silhouette_score E D (subpopulations s1) = Inr sc"
    using assms g f D
    by (cases "silhouette_score E D (subpopulations s1)") (simp_all add: candidate_score_def)
  with g f D show ?thesis by (rule that)
qed

subsection \<open>Automatic selection of the cluster count\<close>

lemma py_index_last: "xs \<noteq> [] \<Longrightarrow> py_index xs (- 1) = Inr (last xs)"
proof -
  assume ne: "xs \<noteq> []"
  then have "nat (int (length xs) + - 1) = length xs - 1" by (cases xs) simp_all
  moreover from ne have "0 < length xs" by simp
  ultimately show ?thesis using ne by (simp add: py_index_def last_conv_nth Suc_leI)
qed

lemma candidates_Cons: "[2..max 2 (m::int)] = 2 # [3..max 2 m]"
  by (simp add: upto_rec1)

lemma optimal_Done:
  assumes "get_optimal_clustering E mc s = Done u s'"
  obtains L s1 where "scan E [2..max 2 mc] [] None s = Done L s1" and "L \<noteq> []"
    and "generate E (s1\<lparr>silh_scores := Some (sort L), k := snd (last (sort L))\<rparr>) = Done u s'"
proof -
  obtain L s1 where sc: "scan E [2..max 2 mc] [] None s = Done L s1"
    using assms by (cases "scan E [2..max 2 mc] [] None s")
      (simp_all add: get_optimal_clustering_def Let_def)
  from scan_Done [OF sc] have "L = map (\<lambda>n. (the (candidate_score E s n), n)) [2..max 2 mc]"
    by simp
  then have ne: "L \<noteq> []" by (simp add: candidates_Cons)
  then have "sort L \<noteq> []" by (metis length_sort length_0_conv)
  then have "py_index (sort L) (- 1) = Inr (last (sort L))" by (rule py_index_last)
  with assms sc
  have "generate E (s1\<lparr>silh_scores := Some (sort L), k := snd (last (sort L))\<rparr>) = Done u s'"
    by (simp add: get_optimal_clustering_def Let_def)
  with sc ne show ?thesis by (rule that)
qed

lemma sorted_le_last: "sorted xs \<Longrightarrow> x \<in> set xs \<Longrightarrow> x \<le> last xs"
  by (induction xs) (auto)

subsection \<open>Evaluation on the concrete library stand-in\<close>

lemma demo_generate:
  assumes "k s = 2 \<or> k s = 3"
  shows "generate (demo_env m3) s
     = Done () (s\<lparr>attributions := Some [[2, 8], [1, 9], [8, 2], [9, 1]],
                  feature_labels := Some [''height'', ''weight''],
                  normalized_attributions := Some (GAM_normalize [[2, 8], [1, 9], [8, 2], [9, 1]]),
                  subpopulations := Some (if k s = 2 then [0, 0, 1, 1] else m3),
                  subpopulation_sizes :=
                    Some (get_subpopulation_sizes (if k s = 2 then [0, 0, 1, 1] else m3)),
                  explanations :=
                    Some (map (\<lambda>c. zip [''height'', ''weight'']
                                  (GAM_normalize [[2, 8], [1, 9], [8, 2], [9, 1]] ! nat c))
                            (if k s = 2 then [0, 2] else [0, 2, 3]))\<rparr>)"
proof -
  let ?s2 = "s\<lparr>attributions := Some [[2, 8], [1, 9], [8, 2], [9, 1]],
                 feature_labels := Some [''height'', ''weight''],
                 normalized_attributions := Some (GAM_normalize [[2, 8], [1, 9], [8, 2], [9, 1]])\<rparr>"
  have ex: "get_explanations ?s2 cs
            = Inr (map (\<lambda>c. zip [''height'', ''weight'']
                          (GAM_normalize [[2, 8], [1, 9], [8, 2], [9, 1]] ! nat c)) cs)"
    if "\<forall>c \<in> set cs. 0 \<le> c \<and> c < 4" for cs
    using explanations_loop_valid [of ?s2 "GAM_normalize [[2, 8], [1, 9], [8, 2], [9, 1]]"
        "[''height'', ''weight'']" cs "[]"] that
    by (simp add: get_explanations_def GAM_normalize_def)
  have ex2: "get_explanations ?s2 [0, 2] = Inr (map (\<lambda>c. zip [''height'', ''weight'']
                          (GAM_normalize [[2, 8], [1, 9], [8, 2], [9, 1]] ! nat c)) [0, 2])"
    by (rule ex) simp
  have ex3: "get_explanations ?s2 [0, 2, 3] = Inr (map (\<lambda>c. zip [''height'', ''weight'']
                          (GAM_normalize [[2, 8], [1, 9], [8, 2], [9, 1]] ! nat c)) [0, 2, 3])"
    by (rule ex) simp
  from assms show ?thesis
  proof
    assume "k s = 2"
    then show ?thesis
      by (simp add: generate_unfold cluster_unfold demo_env_def ex2)
  next
    assume "k s = 3"
    then show ?thesis
      by (simp add: generate_unfold cluster_unfold demo_env_def ex3)
  qed
qed

lemma demo_score:
  "candidate_score (demo_env m3) (GAM_init p ''spearman'' kk) 2 = Some 1"
  "candidate_score (demo_env m3) (GAM_init p ''spearman'' kk) 3
     = Some (if m3 = [0, 0, 1, 1] then 1 else 1 / 2)"
  by (simp_all add: candidate_score_def demo_generate select_metric_def GAM_init_def)
    (simp_all add: demo_env_def)

lemma demo_env_scoring:
  "pairwise_distances (demo_env m3) d f
     = Inr [[0, 0, 2, 2], [0, 0, 2, 2], [2, 2, 0, 0], [2, 2, 0, 0]]"
  "silhouette_score (demo_env m3) D labels
     = (if labels = Some [0, 0, 1, 1] then Inr 1 else Inr (1 / 2))"
  by (simp_all add: demo_env_def)

lemma demo_scan_tie:
  "scan (demo_env [0, 0, 1, 1]) [2, 3] [] None (GAM_init p ''spearman'' kk)
     = Done [(1, 2), (1, 3)]
         (instance_of (generate (demo_env [0, 0, 1, 1]) (GAM_init p ''spearman'' 3)))"
  by (simp add: demo_generate select_metric_def GAM_init_def demo_env_scoring Let_def)

lemma demo_scan_clear:
  "scan (demo_env [0, 0, 1, 2]) [2, 3] [] None (GAM_init p ''spearman'' kk)
     = Done [(1, 2), (1 / 2, 3)]
         (instance_of (generate (demo_env [0, 0, 1, 2]) (GAM_init p ''spearman'' 3)))"
  by (simp add: demo_generate select_metric_def GAM_init_def demo_env_scoring Let_def)

lemma demo_optimal_tie:
  "get_optimal_clustering (demo_env [0, 0, 1, 1]) 3 (GAM_init p ''spearman'' kk)
     = generate (demo_env [0, 0, 1, 1])
         ((GAM_init p ''spearman'' 3) \<lparr>silh_scores := Some [(1, 2), (1, 3)]\<rparr>)"
proof -
  have c: "[2..max 2 3] = [2, 3 :: int]" by (simp add: upto_rec1)
  show ?thesis
    apply (simp only: get_optimal_clustering_def Let_def c demo_scan_tie)
    apply (simp add: py_index_def less_eq_prod_def demo_generate GAM_init_def)
    done
qed

lemma demo_optimal_clear:
  "get_optimal_clustering (demo_env [0, 0, 1, 2]) 3 (GAM_init p ''spearman'' kk)
     = generate (demo_env [0, 0, 1, 2])
         ((GAM_init p ''spearman'' 2) \<lparr>silh_scores := Some [(1 / 2, 3), (1, 2)]\<rparr>)"
proof -
  have c: "[2..max 2 3] = [2, 3 :: int]" by (simp add: upto_rec1)
  show ?thesis
    apply (simp only: get_optimal_clustering_def Let_def c demo_scan_clear)
    apply (simp add: py_index_def less_eq_prod_def demo_generate GAM_init_def)
    done
qed

lemma demo_generate_Done:
  "k s = 2 \<or> k s = 3 \<Longrightarrow>
   generate (demo_env m3) s = Done () (instance_of (generate (demo_env m3) s))"
  by (simp add: demo_generate)

lemma demo_generate_fields:
  assumes "k s = 2 \<or> k s = 3"
  shows "k (instance_of (generate (demo_env m3) s)) = k s"
    and "subpopulations (instance_of (generate (demo_env m3) s))
         = Some (if k s = 2 then [0, 0, 1, 1] else m3)"
    and "silh_scores (instance_of (generate (demo_env m3) s)) = silh_scores s"
  using assms by (simp_all add: demo_generate)

lemma demo_scan_one:
  "scan (demo_env m3) [2] [] None (GAM_init p ''spearman'' kk)
     = Done [(1, 2)] (instance_of (generate (demo_env m3) (GAM_init p ''spearman'' 2)))"
  by (simp add: demo_generate select_metric_def GAM_init_def demo_env_scoring Let_def)

lemma demo_optimal_small:
  assumes "mc \<le> 2"
  shows "get_optimal_clustering (demo_env m3) mc (GAM_init p ''spearman'' kk)
     = generate (demo_env m3)
         ((GAM_init p ''spearman'' 2) \<lparr>silh_scores := Some [(1, 2)]\<rparr>)"
proof -
  have c: "[2..max 2 mc] = [2]" using assms by (simp add: max_def upto_rec1)
  show ?thesis
    apply (simp only: get_optimal_clustering_def Let_def c demo_scan_one)
    apply (simp add: py_index_def demo_generate GAM_init_def)
    done
qed

lemma probe_generate:
  "generate probe_env s
     = Done () (s\<lparr>attributions := Some [[2, 8], [1, 9], [8, 2], [9, 1]],
                  feature_labels := Some [''height'', ''weight''],
                  normalized_attributions := Some (GAM_normalize [[2, 8], [1, 9], [8, 2], [9, 1]]),
                  subpopulations := Some [0, 0, 1, 1],
                  subpopulation_sizes := Some (get_subpopulation_sizes [0, 0, 1, 1]),
                  explanations :=
                    Some (map (\<lambda>c. zip [''height'', ''weight'']
                                  (GAM_normalize [[2, 8], [1, 9], [8, 2], [9, 1]] ! nat c))
                            [0, 2])\<rparr>)"
proof -
  let ?s2 = "s\<lparr>attributions := Some [[2, 8], [1, 9], [8, 2], [9, 1]],
                 feature_labels := Some [''height'', ''weight''],
                 normalized_attributions := Some (GAM_normalize [[2, 8], [1, 9], [8, 2], [9, 1]])\<rparr>"
  have ex2: "get_explanations ?s2 [0, 2]
            = Inr (map (\<lambda>c. zip [''height'', ''weight'']
                          (GAM_normalize [[2, 8], [1, 9], [8, 2], [9, 1]] ! nat c)) [0, 2])"
    using explanations_loop_valid [of ?s2 "GAM_normalize [[2, 8], [1, 9], [8, 2], [9, 1]]"
        "[''height'', ''weight'']" "[0, 2]" "[]"]
    by (simp add: get_explanations_def GAM_normalize_def)
  show ?thesis
    by (simp add: generate_unfold cluster_unfold probe_env_def ex2)
qed

subsection \<open>What selection retains\<close>

lemma optimal_Done_table:
  assumes "get_optimal_clustering E mc s = Done u s'"
  shows "silh_scores s'
         = Some (sort (map (\<lambda>n. (the (candidate_score E s n), n)) [2..max 2 mc]))"
    and "k s' = snd (last (sort (map (\<lambda>n. (the (candidate_score E s n), n)) [2..max 2 mc])))"
    and "\<forall>n \<in> set [2..max 2 mc]. candidate_score E s n \<noteq> None"
    and "attributions_path s' = attributions_path s" and "distance s' = distance s"
proof -
  from assms obtain L s1 where sc: "scan E [2..max 2 mc] [] None s = Done L s1"
    and g: "generate E (s1\<lparr>silh_scores := Some (sort L), k := snd (last (sort L))\<rparr>) = Done u s'"
    by (rule optimal_Done)
  from scan_Done [OF sc]
  have L: "L = map (\<lambda>n. (the (candidate_score E s n), n)) [2..max 2 mc]"
    and ok: "\<forall>n \<in> set [2..max 2 mc]. candidate_score E s n \<noteq> None"
    and f: "attributions_path s1 = attributions_path s" "distance s1 = distance s"
    by simp_all
  from generate_Done_fields [OF g] L f
  show "silh_scores s'
         = Some (sort (map (\<lambda>n. (the (candidate_score E s n), n)) [2..max 2 mc]))"
    and "k s' = snd (last (sort (map (\<lambda>n. (the (candidate_score E s n), n)) [2..max 2 mc])))"
    and "attributions_path s' = attributions_path s" and "distance s' = distance s"
    by simp_all
  from ok show "\<forall>n \<in> set [2..max 2 mc]. candidate_score E s n \<noteq> None" .
qed

text \<open>
  Claim C2 says that among candidates with equal scores the smaller \<open>k\<close> is chosen.
  With a clusterer that leaves the third cluster empty, the candidates 2 and 3 have the
  same membership and the same score, and selection ends with \<open>k = 3\<close>.
\<close>

theorem selection_tie_counterexample:
  "candidate_score (demo_env [0, 0, 1, 1]) (GAM_init ''local_attributions.csv'' ''spearman'' 2) 2
     = Some 1
   \<and> candidate_score (demo_env [0, 0, 1, 1]) (GAM_init ''local_attributions.csv'' ''spearman'' 2) 3
     = Some 1
   \<and> returned (get_optimal_clustering (demo_env [0, 0, 1, 1]) 3
        (GAM_init ''local_attributions.csv'' ''spearman'' 2))
   \<and> k (instance_of (get_optimal_clustering (demo_env [0, 0, 1, 1]) 3
        (GAM_init ''local_attributions.csv'' ''spearman'' 2))) = 3"
  apply (simp only: demo_score demo_optimal_tie)
  apply (simp add: demo_generate GAM_init_def)
  done

text \<open>
  Claim C2, amended. When automatic selection returns, every candidate from 2 to
  \<open>max(2, max_clusters)\<close> has been scored, and the \<open>k\<close> it leaves on the instance is a
  candidate whose score no other candidate exceeds; among candidates with that score
  it is the largest.
\<close>

theorem selection_takes_highest_score_then_largest_k:
  assumes "get_optimal_clustering E max_clusters self = Done u self'"
  shows "2 \<le> k self' \<and> k self' \<le> max 2 max_clusters
     \<and> (\<exists>best. candidate_score E self (k self') = Some best
          \<and> (\<forall>n. 2 \<le> n \<and> n \<le> max 2 max_clusters \<longrightarrow>
                (\<exists>sc. candidate_score E self n = Some sc
                      \<and> (sc < best \<or> (sc = best \<and> n \<le> k self')))))"
proof -
  let ?L = "map (\<lambda>n. (the (candidate_score E self n), n)) [2..max 2 max_clusters]"
  note tab = optimal_Done_table [OF assms]
  have ne: "sort ?L \<noteq> []" by (simp add: candidates_Cons)
  then have "last (sort ?L) \<in> set (sort ?L)" by (rule last_in_set)
  then have "last (sort ?L) \<in> set ?L" by simp
  then obtain b where b: "b \<in> set [2..max 2 max_clusters]"
    and lb: "last (sort ?L) = (the (candidate_score E self b), b)" by auto
  have kb: "k self' = b" using tab(2) lb by simp
  from tab(3) b have "candidate_score E self b \<noteq> None" by (rule bspec)
  then obtain best where best: "candidate_score E self b = Some best" by blast
  have range: "2 \<le> b" "b \<le> max 2 max_clusters" using b by simp_all
  have dom: "\<exists>sc. candidate_score E self n = Some sc \<and> (sc < best \<or> (sc = best \<and> n \<le> b))"
    if n: "2 \<le> n \<and> n \<le> max 2 max_clusters" for n
  proof -
    from n have nin: "n \<in> set [2..max 2 max_clusters]" by simp
    with tab(3) have "candidate_score E self n \<noteq> None" by (rule bspec)
    then obtain sc where sc: "candidate_score E self n = Some sc" by blast
    from nin have "(the (candidate_score E self n), n) \<in> set (sort ?L)" by simp
    then have "(the (candidate_score E self n), n) \<le> last (sort ?L)"
      by (rule sorted_le_last [OF sorted_sort])
    with sc lb best have "(sc, n) \<le> (best, b)" by simp
    then have "sc < best \<or> (sc = best \<and> n \<le> b)" by (auto simp: less_eq_prod_def)
    with sc show ?thesis by simp
  qed
  from range kb best dom show ?thesis by simp
qed

theorem selection_takes_highest_score_witness:
  "get_optimal_clustering (demo_env [0, 0, 1, 2]) 3
        (GAM_init ''local_attributions.csv'' ''spearman'' 5)
     = Done () (instance_of (get_optimal_clustering (demo_env [0, 0, 1, 2]) 3
        (GAM_init ''local_attributions.csv'' ''spearman'' 5)))
   \<and> k (instance_of (get_optimal_clustering (demo_env [0, 0, 1, 2]) 3
        (GAM_init ''local_attributions.csv'' ''spearman'' 5))) = 2
   \<and> candidate_score (demo_env [0, 0, 1, 2]) (GAM_init ''local_attributions.csv'' ''spearman'' 5) 2
     = Some 1
   \<and> candidate_score (demo_env [0, 0, 1, 2]) (GAM_init ''local_attributions.csv'' ''spearman'' 5) 3
     = Some (1 / 2)"
proof -
  let ?E = "demo_env [0, 0, 1, 2]"
  let ?s = "GAM_init ''local_attributions.csv'' ''spearman'' 5"
  have run: "get_optimal_clustering ?E 3 ?s = Done () (instance_of (get_optimal_clustering ?E 3 ?s))"
    apply (simp only: demo_optimal_clear)
    apply (simp add: demo_generate GAM_init_def)
    done
  have sc: "candidate_score ?E ?s 2 = Some 1" "candidate_score ?E ?s 3 = Some (1 / 2)"
    by (simp_all add: demo_score)
  from selection_takes_highest_score_then_largest_k [OF run]
  obtain best where b: "candidate_score ?E ?s (k (instance_of (get_optimal_clustering ?E 3 ?s))) = Some best"
    and r: "2 \<le> k (instance_of (get_optimal_clustering ?E 3 ?s))"
      "k (instance_of (get_optimal_clustering ?E 3 ?s)) \<le> max 2 3"
    and d: "\<forall>n. 2 \<le> n \<and> n \<le> max 2 3 \<longrightarrow>
                (\<exists>sc. candidate_score ?E ?s n = Some sc
                      \<and> (sc < best \<or> (sc = best \<and> n \<le> k (instance_of (get_optimal_clustering ?E 3 ?s)))))"
    by blast
  from r have "k (instance_of (get_optimal_clustering ?E 3 ?s)) = 2
             \<or> k (instance_of (get_optimal_clustering ?E 3 ?s)) = 3" by auto
  moreover have "k (instance_of (get_optimal_clustering ?E 3 ?s)) \<noteq> 3"
  proof
    assume k3: "k (instance_of (get_optimal_clustering ?E 3 ?s)) = 3"
    with b sc have "best = 1 / 2" by simp
    moreover from d have "\<exists>sc. candidate_score ?E ?s 2 = Some sc
                      \<and> (sc < best \<or> (sc = best \<and> 2 \<le> k (instance_of (get_optimal_clustering ?E 3 ?s))))"
      by simp
    ultimately show False using sc by auto
  qed
  ultimately have "k (instance_of (get_optimal_clustering ?E 3 ?s)) = 2" by simp
  with run sc show ?thesis by simp
qed



subsection \<open>A maximum of two or less\<close>

text \<open>
  Claim C5 says that selection fails when the range holds fewer than two candidates.
  With a requested maximum of 1 the range is the single candidate 2, and selection
  returns, with \<open>k = 2\<close>.
\<close>

theorem small_maximum_counterexample:
  "returned (get_optimal_clustering (demo_env [0, 0, 1, 2]) 1
        (GAM_init ''local_attributions.csv'' ''spearman'' 2))
   \<and> k (instance_of (get_optimal_clustering (demo_env [0, 0, 1, 2]) 1
        (GAM_init ''local_attributions.csv'' ''spearman'' 2))) = 2
   \<and> silh_scores (instance_of (get_optimal_clustering (demo_env [0, 0, 1, 2]) 1
        (GAM_init ''local_attributions.csv'' ''spearman'' 2))) = Some [(1, 2)]
   \<and> subpopulation_sizes (instance_of (get_optimal_clustering (demo_env [0, 0, 1, 2]) 1
        (GAM_init ''local_attributions.csv'' ''spearman'' 2))) = Some [2, 2]"
proof -
  have e: "get_optimal_clustering (demo_env [0, 0, 1, 2]) 1
        (GAM_init ''local_attributions.csv'' ''spearman'' 2)
     = generate (demo_env [0, 0, 1, 2])
         ((GAM_init ''local_attributions.csv'' ''spearman'' 2) \<lparr>silh_scores := Some [(1, 2)]\<rparr>)"
    by (rule demo_optimal_small) simp
  show ?thesis
    unfolding e
    by (simp add: demo_generate GAM_init_def get_subpopulation_sizes_def Counter_def
        counter_get_def)
qed

text \<open>
  Claim C5, amended. A requested maximum of 2 or less is raised to 2 and is no error:
  the single candidate \<open>k = 2\<close> is scored, and whenever scoring it succeeds selection
  returns with \<open>k = 2\<close> and a score table of that one entry.
\<close>

theorem small_maximum_selects_two:
  assumes "max_clusters \<le> 2" and "candidate_score E self 2 = Some sc"
  shows "\<exists>self'. get_optimal_clustering E max_clusters self = Done () self'
           \<and> k self' = 2 \<and> silh_scores self' = Some [(sc, 2)]"
proof -
  from assms(2) obtain u s1 f D where g: "generate E (self\<lparr>k := 2\<rparr>) = Done u s1"
    and f: "select_metric (distance s1) None = Some f"
    and D: "pairwise_distances E (normalized_attributions s1) f = Inr D"
    and v: "silhouette_score E D (subpopulations s1) = Inr sc"
    by (rule candidate_score_SomeE)
  have c: "[2..max 2 max_clusters] = [2]" using assms(1) by (simp add: max_def upto_rec1)
  have sc: "scan E [2] [] None self = Done [(sc, 2)] s1"
    using g f D v by (simp add: Let_def)
  let ?t = "s1\<lparr>silh_scores := Some [(sc, 2)], k := 2\<rparr>"
  have "generate E ?t = Done u (copy_results s1 ?t)"
    by (rule generate_Done_transfer [OF g]) (simp_all add: generate_Done_fields [OF g])
  moreover have "get_optimal_clustering E max_clusters self = generate E ?t"
    apply (simp only: get_optimal_clustering_def Let_def c sc)
    apply (simp add: py_index_def)
    done
  ultimately have "get_optimal_clustering E max_clusters self = Done u (copy_results s1 ?t)"
    by simp
  then show ?thesis by (simp add: copy_results_def)
qed

theorem small_maximum_witness:
  "(0::int) \<le> 2
   \<and> candidate_score (demo_env [0, 0, 1, 1]) (GAM_init ''local_attributions.csv'' ''spearman'' 4) 2
       = Some 1
   \<and> get_optimal_clustering (demo_env [0, 0, 1, 1]) 0
        (GAM_init ''local_attributions.csv'' ''spearman'' 4)
       = Done () (instance_of (get_optimal_clustering (demo_env [0, 0, 1, 1]) 0
            (GAM_init ''local_attributions.csv'' ''spearman'' 4)))
   \<and> k (instance_of (get_optimal_clustering (demo_env [0, 0, 1, 1]) 0
        (GAM_init ''local_attributions.csv'' ''spearman'' 4))) = 2
   \<and> silh_scores (instance_of (get_optimal_clustering (demo_env [0, 0, 1, 1]) 0
        (GAM_init ''local_attributions.csv'' ''spearman'' 4))) = Some [(1, 2)]"
proof -
  let ?E = "demo_env [0, 0, 1, 1]"
  let ?s = "GAM_init ''local_attributions.csv'' ''spearman'' 4"
  have m: "(0::int) \<le> 2" by simp
  have sc: "candidate_score ?E ?s 2 = Some 1" by (rule demo_score)
  from small_maximum_selects_two [OF m sc]
  obtain self' where "get_optimal_clustering ?E 0 ?s = Done () self'"
    and "k self' = 2" and "silh_scores self' = Some [(1, 2)]" by blast
  with sc show ?thesis by simp
qed

subsection \<open>A distance name that is neither of the two\<close>

text \<open>
  Claim C4 says that an unknown distance name fails before any clustering and leaves
  nothing on the instance. For the name \<open>euclidean\<close>, \<open>generate\<close> returns; selection
  raises only after the run for \<open>k = 2\<close>, and the instance holds that run's membership,
  sizes and explanations.
\<close>

theorem unknown_metric_counterexample:
  "get_optimal_clustering (demo_env [0, 0, 1, 2]) 3
        (GAM_init ''local_attributions.csv'' ''euclidean'' 2)
     = Fail UnboundLocalError
         (instance_of (generate (demo_env [0, 0, 1, 2])
            (GAM_init ''local_attributions.csv'' ''euclidean'' 2)))
   \<and> returned (generate (demo_env [0, 0, 1, 2])
         (GAM_init ''local_attributions.csv'' ''euclidean'' 2))
   \<and> subpopulations (instance_of (generate (demo_env [0, 0, 1, 2])
         (GAM_init ''local_attributions.csv'' ''euclidean'' 2))) = Some [0, 0, 1, 1]
   \<and> subpopulation_sizes (instance_of (generate (demo_env [0, 0, 1, 2])
         (GAM_init ''local_attributions.csv'' ''euclidean'' 2))) = Some [2, 2]
   \<and> explanations (instance_of (generate (demo_env [0, 0, 1, 2])
         (GAM_init ''local_attributions.csv'' ''euclidean'' 2)))
       = Some [[(''height'', Num (1 / 5)), (''weight'', Num (4 / 5))],
               [(''height'', Num (4 / 5)), (''weight'', Num (1 / 5))]]"
proof -
  let ?E = "demo_env [0, 0, 1, 2]"
  let ?s = "GAM_init ''local_attributions.csv'' ''euclidean'' 2"
  have c: "[2..max 2 3] = [2, 3 :: int]" by (simp add: upto_rec1)
  have "scan ?E [2, 3] [] None ?s = Fail UnboundLocalError (instance_of (generate ?E ?s))"
    by (simp add: demo_generate select_metric_def GAM_init_def Let_def)
  then have "get_optimal_clustering ?E 3 ?s
             = Fail UnboundLocalError (instance_of (generate ?E ?s))"
    by (simp only: get_optimal_clustering_def Let_def c) simp
  then show ?thesis
    by (simp add: demo_generate GAM_init_def get_subpopulation_sizes_def Counter_def
        counter_get_def GAM_normalize_def normalize_row_def row_total_def np_div_def)
qed

text \<open>
  Claim C4, amended. With a distance name that is neither \<open>spearman\<close> nor
  \<open>kendall_tau\<close>, automatic selection does not return, but it does not stop before
  clustering either: it runs \<open>generate\<close> for the first candidate \<open>k = 2\<close>, and the
  instance it leaves is the one that run left. \<open>generate\<close> itself makes no check of the
  name: it runs as it does for \<open>spearman\<close>.
\<close>

theorem unknown_metric_fails_after_first_run:
  assumes "distance self \<noteq> ''spearman''" and "distance self \<noteq> ''kendall_tau''"
  shows "\<not> returned (get_optimal_clustering E max_clusters self)
     \<and> instance_of (get_optimal_clustering E max_clusters self)
         = instance_of (generate E (self\<lparr>k := 2\<rparr>))
     \<and> generate E self
         = (case generate E (self\<lparr>distance := ''spearman''\<rparr>) of
              Done u self1 \<Rightarrow> Done u (self1\<lparr>distance := distance self\<rparr>)
            | Fail e self1 \<Rightarrow> Fail e (self1\<lparr>distance := distance self\<rparr>))"
proof -
  have run: "get_optimal_clustering E max_clusters self
         = (case generate E (self\<lparr>k := 2\<rparr>) of
              Done u self1 \<Rightarrow> Fail UnboundLocalError self1
            | Fail e self1 \<Rightarrow> Fail e self1)"
  proof (cases "generate E (self\<lparr>k := 2\<rparr>)")
    case (Done u s1)
    have "distance s1 = distance self" using generate_Done_fields(2) [OF Done] by simp
    with assms have "select_metric (distance s1) None = None" by (simp add: select_metric_def)
    with Done have "scan E (2 # [3..max 2 max_clusters]) [] None self = Fail UnboundLocalError s1"
      by (simp add: Let_def)
    then have "get_optimal_clustering E max_clusters self = Fail UnboundLocalError s1"
      by (simp only: get_optimal_clustering_def Let_def candidates_Cons) simp
    with Done show ?thesis by simp
  next
    case (Fail e s1)
    then have "scan E (2 # [3..max 2 max_clusters]) [] None self = Fail e s1"
      by simp
    then have "get_optimal_clustering E max_clusters self = Fail e s1"
      by (simp only: get_optimal_clustering_def Let_def candidates_Cons) simp
    with Fail show ?thesis by simp
  qed
  have "generate E ((self\<lparr>distance := ''spearman''\<rparr>)\<lparr>distance := distance self\<rparr>)
         = (case generate E (self\<lparr>distance := ''spearman''\<rparr>) of
              Done u self1 \<Rightarrow> Done u (self1\<lparr>distance := distance self\<rparr>)
            | Fail e self1 \<Rightarrow> Fail e (self1\<lparr>distance := distance self\<rparr>))"
    by (rule generate_distance_update)
  then have gen: "generate E self
         = (case generate E (self\<lparr>distance := ''spearman''\<rparr>) of
              Done u self1 \<Rightarrow> Done u (self1\<lparr>distance := distance self\<rparr>)
            | Fail e self1 \<Rightarrow> Fail e (self1\<lparr>distance := distance self\<rparr>))"
    by simp
  from run have "\<not> returned (get_optimal_clustering E max_clusters self)"
    and "instance_of (get_optimal_clustering E max_clusters self)
         = instance_of (generate E (self\<lparr>k := 2\<rparr>))"
    by (simp_all split: run.splits)
  with gen show ?thesis by blast
qed

theorem unknown_metric_witness:
  "distance (GAM_init ''local_attributions.csv'' ''cosine'' 3) \<noteq> ''spearman''
   \<and> distance (GAM_init ''local_attributions.csv'' ''cosine'' 3) \<noteq> ''kendall_tau''
   \<and> \<not> returned (get_optimal_clustering (demo_env [0, 0, 1, 1]) 4
        (GAM_init ''local_attributions.csv'' ''cosine'' 3))
   \<and> instance_of (get_optimal_clustering (demo_env [0, 0, 1, 1]) 4
        (GAM_init ''local_attributions.csv'' ''cosine'' 3))
       = instance_of (generate (demo_env [0, 0, 1, 1])
              (GAM_init ''local_attributions.csv'' ''cosine'' 2))
   \<and> subpopulations (instance_of (generate (demo_env [0, 0, 1, 1])
              (GAM_init ''local_attributions.csv'' ''cosine'' 2))) = Some [0, 0, 1, 1]"
proof -
  let ?E = "demo_env [0, 0, 1, 1]"
  let ?s = "GAM_init ''local_attributions.csv'' ''cosine'' 3"
  have d: "distance ?s \<noteq> ''spearman''" "distance ?s \<noteq> ''kendall_tau''"
    by (simp_all add: GAM_init_def)
  have u: "?s\<lparr>k := 2\<rparr> = GAM_init ''local_attributions.csv'' ''cosine'' 2"
    by (simp add: GAM_init_def)
  note t = unknown_metric_fails_after_first_run [OF d, of ?E 4]
  from t have "\<not> returned (get_optimal_clustering ?E 4 ?s)" by blast
  moreover
  from t have "instance_of (get_optimal_clustering ?E 4 ?s)
         = instance_of (generate ?E (?s\<lparr>k := 2\<rparr>))" by blast
  then have "instance_of (get_optimal_clustering ?E 4 ?s)
         = instance_of (generate ?E (GAM_init ''local_attributions.csv'' ''cosine'' 2))"
    by (simp only: u)
  moreover
  have "subpopulations (instance_of (generate ?E (GAM_init ''local_attributions.csv'' ''cosine'' 2)))
        = Some [0, 0, 1, 1]"
    by (simp add: demo_generate GAM_init_def)
  ultimately show ?thesis using d by simp
qed

subsection \<open>The distance function handed to the clusterer\<close>

text \<open>
  Claim C1 says that \<open>generate\<close> clusters with the distance function named by the
  instance. \<open>generate\<close> calls \<open>_cluster\<close> without an argument, so the clusterer always
  gets the Spearman function: an instance configured with \<open>kendall_tau\<close> runs exactly as
  one configured with \<open>spearman\<close>, and with a clusterer that answers differently for
  the two functions the membership is the one for Spearman.
\<close>

theorem explicit_metric_is_not_passed_to_clusterer:
  "generate E (self\<lparr>distance := ''kendall_tau''\<rparr>)
     = (case generate E (self\<lparr>distance := ''spearman''\<rparr>) of
          Done u self1 \<Rightarrow> Done u (self1\<lparr>distance := ''kendall_tau''\<rparr>)
        | Fail e self1 \<Rightarrow> Fail e (self1\<lparr>distance := ''kendall_tau''\<rparr>))
   \<and> returned (generate probe_env (GAM_init ''local_attributions.csv'' ''kendall_tau'' 2))
   \<and> subpopulations (instance_of
        (generate probe_env (GAM_init ''local_attributions.csv'' ''kendall_tau'' 2)))
      = Some [0, 0, 1, 1]
   \<and> KMedoids_fit probe_env 2 spearman_squared_distance 1000 (1 / 10000)
        (Some (GAM_normalize [[2, 8], [1, 9], [8, 2], [9, 1]])) = Inr ([0, 0, 1, 1], [0, 2])
   \<and> KMedoids_fit probe_env 2 mergeSortDistance 1000 (1 / 10000)
        (Some (GAM_normalize [[2, 8], [1, 9], [8, 2], [9, 1]])) = Inr ([0, 1, 0, 1], [0, 1])"
proof -
  have "generate E (self\<lparr>distance := ''kendall_tau''\<rparr>)
     = (case generate E (self\<lparr>distance := ''spearman''\<rparr>) of
          Done u self1 \<Rightarrow> Done u (self1\<lparr>distance := ''kendall_tau''\<rparr>)
        | Fail e self1 \<Rightarrow> Fail e (self1\<lparr>distance := ''kendall_tau''\<rparr>))"
    by (simp add: generate_distance_update split: run.splits)
  moreover have "returned (generate probe_env (GAM_init ''local_attributions.csv'' ''kendall_tau'' 2))"
    "subpopulations (instance_of
        (generate probe_env (GAM_init ''local_attributions.csv'' ''kendall_tau'' 2)))
      = Some [0, 0, 1, 1]"
    by (simp_all add: probe_generate)
  moreover have "KMedoids_fit probe_env 2 spearman_squared_distance 1000 (1 / 10000)
        (Some (GAM_normalize [[2, 8], [1, 9], [8, 2], [9, 1]])) = Inr ([0, 0, 1, 1], [0, 2])"
    "KMedoids_fit probe_env 2 mergeSortDistance 1000 (1 / 10000)
        (Some (GAM_normalize [[2, 8], [1, 9], [8, 2], [9, 1]])) = Inr ([0, 1, 0, 1], [0, 1])"
    by (simp_all add: probe_env_def)
  ultimately show ?thesis by blast
qed

end
